theory Spec2Isabelle
  imports Complex_Main "HOL-Library.AList"
begin

section \<open>JavaScript values\<close>

text \<open>
  The webhook handler (\<^verbatim>\<open>src/api/webhook.js\<close>) inspects a request body that is either a
  string or a value already decoded from JSON. The values of JavaScript that such a body
  can be are modelled by \<open>jsval\<close>. A string is the list of the bytes of its UTF-8
  encoding. An object is the list of its own properties; a property that is absent reads
  as \<open>undefined\<close>.

  The handler does two things with a number: it compares it with \<open>0\<close> by \<open>===\<close> and it
  tests its truthiness. Both depend only on whether the number is zero or NaN, so a number
  is a rational, an infinity or NaN, and the two zeros of IEEE arithmetic (which \<open>===\<close>
  identifies and which are both falsy) are the one rational \<open>0\<close>.
\<close>

datatype jsnum = Finite rat | Infinity | NegInfinity | NaN

datatype jsval =
    JUndefined
  | JNull
  | JBool bool
  | JNum jsnum
  | JStr string
  | JArr "jsval list"
  | JObj "(string \<times> jsval) list"

datatype error = TypeError

text \<open>\<open>ToBoolean\<close>: what \<^verbatim>\<open>if (v)\<close>, \<^verbatim>\<open>!v\<close> and \<^verbatim>\<open>v || w\<close> test.\<close>

fun truthy :: "jsval \<Rightarrow> bool" where
  "truthy JUndefined = False"
| "truthy JNull = False"
| "truthy (JBool b) = b"
| "truthy (JNum (Finite q)) = (q \<noteq> 0)"
| "truthy (JNum NaN) = False"
| "truthy (JNum Infinity) = True"
| "truthy (JNum NegInfinity) = True"
| "truthy (JStr s) = (s \<noteq> [])"
| "truthy (JArr xs) = True"
| "truthy (JObj ps) = True"

text \<open>The \<^verbatim>\<open>typeof\<close> operator; \<^verbatim>\<open>typeof null\<close> is \<^verbatim>\<open>'object'\<close>.\<close>

fun typeof :: "jsval \<Rightarrow> string" where
  "typeof JUndefined = ''undefined''"
| "typeof JNull = ''object''"
| "typeof (JBool b) = ''boolean''"
| "typeof (JNum n) = ''number''"
| "typeof (JStr s) = ''string''"
| "typeof (JArr xs) = ''object''"
| "typeof (JObj ps) = ''object''"

text \<open>
  Property access \<^verbatim>\<open>v.name\<close> for the four names the handler reads (\<^verbatim>\<open>update_id\<close>,
  \<^verbatim>\<open>pre_checkout_query\<close>, \<^verbatim>\<open>id\<close>, \<^verbatim>\<open>invoice_payload\<close>). None of them is defined on a
  prototype, so on a primitive or an array the access yields \<open>undefined\<close>. The handler
  never reads a property of \<open>null\<close> or \<open>undefined\<close>: both accesses are guarded by a
  truthiness test.
\<close>

fun get :: "jsval \<Rightarrow> string \<Rightarrow> jsval" where
  "get (JObj ps) name = (case map_of ps name of None \<Rightarrow> JUndefined | Some v \<Rightarrow> v)"
| "get v name = JUndefined"

text \<open>The operator \<^verbatim>\<open>a || b\<close>.\<close>

definition js_or :: "jsval \<Rightarrow> jsval \<Rightarrow> jsval" where
  "js_or a b = (if truthy a then a else b)"

section \<open>String methods\<close>

definition startsWith :: "string \<Rightarrow> string \<Rightarrow> bool" where
  "startsWith s p = (take (length p) s = p)"

text \<open>
  \<^verbatim>\<open>String.prototype.trim\<close> removes white space and line terminators from both ends. The
  code points concerned are U+0009 to U+000D, U+0020, U+00A0, U+1680, U+2000 to U+200A,
  U+2028, U+2029, U+202F, U+205F, U+3000 and U+FEFF, listed here in UTF-8.
\<close>

definition whiteSpace :: "string list" where
  "whiteSpace =
    [[CHR 0x09], [CHR 0x0A], [CHR 0x0B], [CHR 0x0C], [CHR 0x0D], [CHR 0x20],
     [CHR 0xC2, CHR 0xA0],
     [CHR 0xE1, CHR 0x9A, CHR 0x80],
     [CHR 0xE2, CHR 0x80, CHR 0x80], [CHR 0xE2, CHR 0x80, CHR 0x81],
     [CHR 0xE2, CHR 0x80, CHR 0x82], [CHR 0xE2, CHR 0x80, CHR 0x83],
     [CHR 0xE2, CHR 0x80, CHR 0x84], [CHR 0xE2, CHR 0x80, CHR 0x85],
     [CHR 0xE2, CHR 0x80, CHR 0x86], [CHR 0xE2, CHR 0x80, CHR 0x87],
     [CHR 0xE2, CHR 0x80, CHR 0x88], [CHR 0xE2, CHR 0x80, CHR 0x89],
     [CHR 0xE2, CHR 0x80, CHR 0x8A],
     [CHR 0xE2, CHR 0x80, CHR 0xA8], [CHR 0xE2, CHR 0x80, CHR 0xA9],
     [CHR 0xE2, CHR 0x80, CHR 0xAF],
     [CHR 0xE2, CHR 0x81, CHR 0x9F],
     [CHR 0xE3, CHR 0x80, CHR 0x80],
     [CHR 0xEF, CHR 0xBB, CHR 0xBF]]"

text \<open>
  \<open>strip ws s\<close> removes from the front of \<open>s\<close> every leading occurrence of a pattern of
  \<open>ws\<close>. One pattern is removed per step, so the string gets shorter at every call.
\<close>

function strip :: "string list \<Rightarrow> string \<Rightarrow> string" where
  "strip ws s =
     (case find (\<lambda>w. w \<noteq> [] \<and> startsWith s w) ws of
        None \<Rightarrow> s
      | Some w \<Rightarrow> strip ws (drop (length w) s))"
  by pat_completeness auto
termination
proof (relation "measure (\<lambda>(ws, s). length s)")
  show "wf (measure (\<lambda>(ws, s). length s))"
    by simp
next
  fix ws :: "string list" and s w :: string
  assume "find (\<lambda>w. w \<noteq> [] \<and> startsWith s w) ws = Some w"
  then have w: "w \<noteq> []" "take (length w) s = w"
    by (auto simp: find_Some_iff startsWith_def)
  then have "s \<noteq> []"
    by auto
  with w show "((ws, drop (length w) s), (ws, s)) \<in> measure (\<lambda>(ws, s). length s)"
    by (cases w) auto
qed

declare strip.simps [simp del]

definition trim :: "string \<Rightarrow> string" where
  "trim s = rev (strip (map rev whiteSpace) (rev (strip whiteSpace s)))"

text \<open>
  The method call \<^verbatim>\<open>v.trim()\<close> on a value. Only a string has the method; on any other
  value that is not \<open>null\<close> or \<open>undefined\<close> the property \<^verbatim>\<open>trim\<close> is \<open>undefined\<close> (a value
  decoded from JSON holds no function), and calling it throws a \<^verbatim>\<open>TypeError\<close>, as does
  reading it from \<open>null\<close> or \<open>undefined\<close>.
\<close>

fun js_trim :: "jsval \<Rightarrow> error + string" where
  "js_trim (JStr s) = Inr (trim s)"
| "js_trim v = Inl TypeError"

text \<open>
  \<^verbatim>\<open>toUpperCase\<close> and \<^verbatim>\<open>toLowerCase\<close> on the ASCII letters. They are applied to HTTP method
  names and header names, which are ASCII tokens.
\<close>

definition upper_char :: "char \<Rightarrow> char" where
  "upper_char c =
     (let n = (of_char c :: nat) in if 97 \<le> n \<and> n \<le> 122 then char_of (n - 32) else c)"


definition toUpperCase :: "string \<Rightarrow> string" where
  "toUpperCase s = map upper_char s"


section \<open>The world around the handler\<close>

text \<open>
  A body handed to \<^verbatim>\<open>JSON.stringify\<close> is kept as the value that is serialised:
  \<open>Json v\<close> stands for the text \<^verbatim>\<open>JSON.stringify(v)\<close>, \<open>Text s\<close> for the string \<open>s\<close> as it
  is.
\<close>

datatype payload = Json jsval | Text string

text \<open>An outbound call \<^verbatim>\<open>fetch(url, {method, headers, body})\<close>.\<close>

record fetch_request =
  fr_url :: string
  fr_method :: string
  fr_headers :: "(string \<times> string) list"
  fr_body :: payload

text \<open>
  What \<^verbatim>\<open>await fetch(...)\<close> gives: the promise rejects (a network error), or it resolves
  to a response with a status code whose body \<^verbatim>\<open>await r.text()\<close> reads (\<open>None\<close>: reading
  the body rejects). \<^verbatim>\<open>r.ok\<close> holds for the status codes 200 to 299.
\<close>

record fetch_response =
  resp_status :: nat
  resp_text :: "string option"

datatype fetch_outcome = Rejected | Resolved fetch_response

definition resp_ok :: "fetch_response \<Rightarrow> bool" where
  "resp_ok r = (200 \<le> resp_status r \<and> resp_status r \<le> 299)"

text \<open>
  The platform, as far as the handler uses it: \<^verbatim>\<open>JSON.parse\<close> (\<open>None\<close>: it throws a
  \<^verbatim>\<open>SyntaxError\<close>), the environment variable \<^verbatim>\<open>BOT_TOKEN\<close>, the network behind \<^verbatim>\<open>fetch\<close>,
  and whether the response object has a method \<^verbatim>\<open>writeHead\<close>.
\<close>

record env =
  JSON_parse :: "string \<Rightarrow> jsval option"
  BOT_TOKEN :: "string option"
  fetch :: "fetch_request \<Rightarrow> fetch_outcome"
  res_has_writeHead :: bool

text \<open>
  The request: \<^verbatim>\<open>req.method\<close> and \<^verbatim>\<open>req.headers.host\<close> (\<open>None\<close>: \<open>undefined\<close>), \<^verbatim>\<open>req.url\<close>
  and \<^verbatim>\<open>req.body\<close>.
\<close>

record request =
  req_method :: "string option"
  req_url :: string
  req_host :: "string option"
  req_body :: jsval

text \<open>A response sent to the caller, with the headers the handler has set itself.\<close>

record response =
  status :: nat
  headers :: "(string \<times> string) list"
  body :: payload

datatype log = ConsoleLog string | ConsoleWarn string | ConsoleError string

text \<open>
  The effects of one invocation: the status code and headers set on \<^verbatim>\<open>res\<close> so far, the
  responses sent, the outbound calls made, the console output (the first argument of
  each call), and the exception the invocation ended with, if any. The methods of \<^verbatim>\<open>res\<close>
  themselves do not throw, and a response records the headers that the handler has set
  by \<^verbatim>\<open>setHeader\<close> or \<^verbatim>\<open>writeHead\<close>, not those a method of \<^verbatim>\<open>res\<close> adds on its own.
\<close>

record state =
  statusCode :: nat
  hdrs :: "(string \<times> string) list"
  responses :: "response list"
  calls :: "fetch_request list"
  console :: "log list"
  thrown :: "error option"

definition init :: state where
  "init = \<lparr>statusCode = 200, hdrs = [], responses = [], calls = [], console = [], thrown = None\<rparr>"

definition console_log :: "string \<Rightarrow> state \<Rightarrow> state" where
  "console_log m s = s\<lparr>console := console s @ [ConsoleLog m]\<rparr>"

definition console_warn :: "string \<Rightarrow> state \<Rightarrow> state" where
  "console_warn m s = s\<lparr>console := console s @ [ConsoleWarn m]\<rparr>"

definition console_error :: "string \<Rightarrow> state \<Rightarrow> state" where
  "console_error m s = s\<lparr>console := console s @ [ConsoleError m]\<rparr>"

definition res_status :: "nat \<Rightarrow> state \<Rightarrow> state" where
  "res_status c s = s\<lparr>statusCode := c\<rparr>"

definition res_setHeader :: "string \<Rightarrow> string \<Rightarrow> state \<Rightarrow> state" where
  "res_setHeader k v s = s\<lparr>hdrs := AList.update k v (hdrs s)\<rparr>"

definition res_send :: "payload \<Rightarrow> state \<Rightarrow> state" where
  "res_send b s =
     s\<lparr>responses := responses s @ [\<lparr>status = statusCode s, headers = hdrs s, body = b\<rparr>]\<rparr>"

definition res_json :: "jsval \<Rightarrow> state \<Rightarrow> state" where
  "res_json v s = res_send (Json v) s"

definition res_writeHead :: "nat \<Rightarrow> (string \<times> string) list \<Rightarrow> state \<Rightarrow> state" where
  "res_writeHead c hs s =
     s\<lparr>statusCode := c, hdrs := AList.updates (map fst hs) (map snd hs) (hdrs s)\<rparr>"

definition res_end :: "payload \<Rightarrow> state \<Rightarrow> state" where
  "res_end b s = res_send b s"

definition throw :: "error \<Rightarrow> state \<Rightarrow> state" where
  "throw e s = s\<lparr>thrown := Some e\<rparr>"

definition called :: "fetch_request \<Rightarrow> state \<Rightarrow> state" where
  "called c s = s\<lparr>calls := calls s @ [c]\<rparr>"

section \<open>The webhook handler\<close>

definition ok_true :: jsval where
  "ok_true = JObj [(''ok'', JBool True)]"

definition ok_false :: jsval where
  "ok_false = JObj [(''ok'', JBool False)]"

text \<open>The text of \<^verbatim>\<open>body.error_message\<close> (line 58), in UTF-8.\<close>

definition error_message :: string where
  "error_message =
    [CHR 0xD0, CHR 0x9D, CHR 0xD0, CHR 0xB5, CHR 0xD0, CHR 0xB2, CHR 0xD0, CHR 0xB5,
     CHR 0xD1, CHR 0x80, CHR 0xD0, CHR 0xBD, CHR 0xD1, CHR 0x8B, CHR 0xD0, CHR 0xB9,
     CHR 0x20, CHR 0xD1, CHR 0x81, CHR 0xD1, CHR 0x87, CHR 0xD1, CHR 0x91, CHR 0xD1,
     CHR 0x82, CHR 0x2E, CHR 0x20, CHR 0xD0, CHR 0x98, CHR 0xD1, CHR 0x81, CHR 0xD0,
     CHR 0xBF, CHR 0xD0, CHR 0xBE, CHR 0xD0, CHR 0xBB, CHR 0xD1, CHR 0x8C, CHR 0xD0,
     CHR 0xB7, CHR 0xD1, CHR 0x83, CHR 0xD0, CHR 0xB9, CHR 0xD1, CHR 0x82, CHR 0xD0,
     CHR 0xB5, CHR 0x20, CHR 0xD0, CHR 0xBA, CHR 0xD0, CHR 0xBD, CHR 0xD0, CHR 0xBE,
     CHR 0xD0, CHR 0xBF, CHR 0xD0, CHR 0xBA, CHR 0xD1, CHR 0x83, CHR 0x20, CHR 0xC2,
     CHR 0xAB, CHR 0xD0, CHR 0x9A, CHR 0xD1, CHR 0x83, CHR 0xD0, CHR 0xBF, CHR 0xD0,
     CHR 0xB8, CHR 0xD1, CHR 0x82, CHR 0xD1, CHR 0x8C, CHR 0x20, CHR 0x50, CHR 0x72,
     CHR 0x65, CHR 0x6D, CHR 0x69, CHR 0x75, CHR 0x6D, CHR 0xC2, CHR 0xBB, CHR 0x20,
     CHR 0xD0, CHR 0xB8, CHR 0xD0, CHR 0xB7, CHR 0x20, CHR 0xD0, CHR 0xB1, CHR 0xD0,
     CHR 0xBE, CHR 0xD1, CHR 0x82, CHR 0xD0, CHR 0xB0, CHR 0x2E]"

text \<open>
  Lines 27 to 34: a string body goes through \<^verbatim>\<open>JSON.parse\<close>, any other body is taken as
  it is. \<open>None\<close>: \<^verbatim>\<open>JSON.parse\<close> threw.
\<close>

definition parse_body :: "env \<Rightarrow> jsval \<Rightarrow> jsval option" where
  "parse_body env b = (case b of JStr s \<Rightarrow> JSON_parse env s | _ \<Rightarrow> Some b)"

text \<open>
  Lines 77 to 92: every update that is not a pre-checkout query goes to the Python
  handler on the same host, and the response of that call is passed on. The \<^verbatim>\<open>catch\<close>
  covers both \<^verbatim>\<open>await fetch(...)\<close> and \<^verbatim>\<open>await proxyRes.text()\<close>.
\<close>

definition forward_call :: "request \<Rightarrow> jsval \<Rightarrow> fetch_request" where
  "forward_call req update =
     (let host = (case req_host req of
                    None \<Rightarrow> ''careeraibot.vercel.app''
                  | Some h \<Rightarrow> if h = [] then ''careeraibot.vercel.app'' else h);
          url = ''https://'' @ host @ ''/api/webhook-handler''
      in \<lparr>fr_url = url, fr_method = ''POST'',
          fr_headers = [(''Content-Type'', ''application/json'')],
          fr_body = Json update\<rparr>)"

definition forward_failed :: "state \<Rightarrow> state" where
  "forward_failed s =
     res_json ok_false (res_status 502 (console_error ''webhook-handler fetch error'' s))"

definition forward :: "env \<Rightarrow> request \<Rightarrow> jsval \<Rightarrow> state \<Rightarrow> state" where
  "forward env req update s =
     (let c = forward_call req update;
          s1 = called c s
      in case fetch env c of
           Rejected \<Rightarrow> forward_failed s1
         | Resolved proxyRes \<Rightarrow>
             (case resp_text proxyRes of
                None \<Rightarrow> forward_failed s1
              | Some text \<Rightarrow>
                  res_send (Text text)
                    (res_status (resp_status proxyRes)
                      (res_setHeader ''Content-Type'' ''application/json'' s1))))"

text \<open>
  Lines 53 to 75: the pre-checkout query is answered at once. The payload is
  \<^verbatim>\<open>(pq.invoice_payload || '').trim()\<close>; the call \<^verbatim>\<open>answerPreCheckoutQuery\<close> carries
  \<^verbatim>\<open>ok\<close> and, when \<^verbatim>\<open>ok\<close> is false, \<^verbatim>\<open>error_message\<close>. Whatever the call does is written to
  the console only (the \<^verbatim>\<open>try\<close> of lines 60 to 73), and line 74 answers the caller.
\<close>

definition approval_call :: "env \<Rightarrow> jsval \<Rightarrow> bool \<Rightarrow> fetch_request" where
  "approval_call env pq ok =
     (let token = (case BOT_TOKEN env of None \<Rightarrow> [] | Some t \<Rightarrow> t);
          b = [(''pre_checkout_query_id'', get pq ''id''), (''ok'', JBool ok)]
              @ (if \<not> ok then [(''error_message'', JStr error_message)] else [])
      in \<lparr>fr_url = ''https://api.telegram.org/bot'' @ token @ ''/answerPreCheckoutQuery'',
          fr_method = ''POST'',
          fr_headers = [(''Content-Type'', ''application/json'')],
          fr_body = Json (JObj b)\<rparr>)"

definition pre_checkout :: "env \<Rightarrow> jsval \<Rightarrow> state \<Rightarrow> state" where
  "pre_checkout env pq s =
     (let s1 = console_log ''[WEBHOOK_JS] pre_checkout_query received, pq_id='' s
      in case js_trim (js_or (get pq ''invoice_payload'') (JStr [])) of
           Inl e \<Rightarrow> throw e s1
         | Inr payload \<Rightarrow>
             (let ok = startsWith payload ''premium_'';
                  c = approval_call env pq ok;
                  s2 = called c s1;
                  s3 = (case fetch env c of
                          Rejected \<Rightarrow>
                            console_error ''[WEBHOOK_JS] answerPreCheckoutQuery error'' s2
                        | Resolved r \<Rightarrow>
                            if resp_ok r then
                              console_log ''[WEBHOOK_JS] answerPreCheckoutQuery ok=true sent'' s2
                            else
                              (case resp_text r of
                                 None \<Rightarrow>
                                   console_error
                                     ''[WEBHOOK_JS] answerPreCheckoutQuery error'' s2
                               | Some t \<Rightarrow>
                                   console_warn ''[WEBHOOK_JS] answerPreCheckoutQuery'' s2))
              in res_json ok_true (res_status 200 s3)))"

text \<open>
  Lines 39 to 52: the warm-up request (\<^verbatim>\<open>update_id\<close> the number 0 or the string \<^verbatim>\<open>'0'\<close>) is
  answered without any call; otherwise the update is a pre-checkout query or is
  forwarded.
\<close>

definition isWarm :: "jsval \<Rightarrow> bool" where
  "isWarm update =
     (let uid = get update ''update_id''
      in uid = JNum (Finite 0) \<or> uid = JStr ''0'')"

definition handle_update :: "env \<Rightarrow> request \<Rightarrow> jsval \<Rightarrow> state \<Rightarrow> state" where
  "handle_update env req update s =
     (let s1 = console_log ''[WEBHOOK_JS] update_id='' s
      in if isWarm update then
           res_send (Json ok_true)
             (res_status 200
               (res_setHeader ''Content-Type'' ''application/json''
                 (console_log ''[WEBHOOK_JS] warm request, returning 200'' s1)))
         else
           (let s2 = console_log ''[WEBHOOK_JS] has pre_checkout='' s1;
                pq = get update ''pre_checkout_query''
            in if truthy pq then pre_checkout env pq s2
               else forward env req update s2))"

text \<open>
  Lines 7 to 37: the method is dispatched and the body is read. The test
  \<^verbatim>\<open>!update || typeof update !== 'object'\<close> of line 35 is written as its two alternatives
  in turn.
\<close>

definition handler :: "env \<Rightarrow> request \<Rightarrow> state" where
  "handler env req =
     (let method = toUpperCase (case req_method req of None \<Rightarrow> [] | Some m \<Rightarrow> m);
          s = console_log ''[WEBHOOK_JS] v2 DEPLOYED_FEB12'' init
      in if method = ''GET'' then res_json ok_true (res_status 200 s)
         else if method \<noteq> ''POST'' then
           (if res_has_writeHead env then
              res_end (Json ok_false)
                (res_writeHead 405 [(''Content-Type'', ''application/json'')] s)
            else res_json ok_false (res_status 405 s))
         else
           (case parse_body env (req_body req) of
              None \<Rightarrow> res_json ok_false (res_status 400 s)
            | Some update \<Rightarrow>
                if \<not> truthy update then res_json ok_false (res_status 400 s)
                else if typeof update \<noteq> ''object'' then
                  res_json ok_false (res_status 400 s)
                else handle_update env req update s))"

section \<open>The edge proxy\<close>

text \<open>
  The worker of \<^verbatim>\<open>src/unnamed/part_000\<close> answers the root path and the CORS preflight
  itself and sends every other request on to the generative-language API.

  A \<^verbatim>\<open>Headers\<close> object is the list of its entries under lower-case names: \<^verbatim>\<open>set\<close> and \<^verbatim>\<open>get\<close>
  compare names without regard to case.
\<close>

type_synonym headers = "(string \<times> string) list"











section \<open>Notions used in the statements\<close>

text \<open>
  \<open>responds s code b\<close>: in the run \<open>s\<close> exactly one response was sent, with status \<open>code\<close>
  and body \<open>b\<close>.
\<close>

definition responds :: "state \<Rightarrow> nat \<Rightarrow> payload \<Rightarrow> bool" where
  "responds s code b = (map (\<lambda>r. (status r, body r)) (responses s) = [(code, b)])"

text \<open>An object in the sense of JavaScript: a plain object or an array, and not \<open>null\<close>.\<close>

fun is_object :: "jsval \<Rightarrow> bool" where
  "is_object (JObj ps) = True"
| "is_object (JArr xs) = True"
| "is_object v = False"

fun is_string :: "jsval \<Rightarrow> bool" where
  "is_string (JStr s) = True"
| "is_string v = False"

text \<open>
  A body that cannot be read as structured data: a string that \<^verbatim>\<open>JSON.parse\<close> rejects, or a
  value (given directly or decoded from the string) that is not an object.
\<close>

definition unparseable :: "env \<Rightarrow> jsval \<Rightarrow> bool" where
  "unparseable env b =
     (case b of
        JStr s \<Rightarrow> (case JSON_parse env s of None \<Rightarrow> True | Some v \<Rightarrow> \<not> is_object v)
      | _ \<Rightarrow> \<not> is_object b)"

section \<open>Example requests and platforms\<close>

definition no_parse :: "string \<Rightarrow> jsval option" where
  "no_parse s = None"

definition net_down :: "fetch_request \<Rightarrow> fetch_outcome" where
  "net_down c = Rejected"

definition net_answers :: "nat \<Rightarrow> string \<Rightarrow> fetch_request \<Rightarrow> fetch_outcome" where
  "net_answers code text c = Resolved \<lparr>resp_status = code, resp_text = Some text\<rparr>"

definition platform :: "(fetch_request \<Rightarrow> fetch_outcome) \<Rightarrow> env" where
  "platform net =
     \<lparr>JSON_parse = no_parse, BOT_TOKEN = Some ''TOKEN'', fetch = net, res_has_writeHead = True\<rparr>"

definition post :: "jsval \<Rightarrow> request" where
  "post b =
     \<lparr>req_method = Some ''POST'', req_url = ''/api/webhook'',
      req_host = Some ''careeraibot.vercel.app'', req_body = b\<rparr>"

text \<open>An update with the given \<^verbatim>\<open>update_id\<close> and further properties.\<close>

definition update_with :: "jsval \<Rightarrow> (string \<times> jsval) list \<Rightarrow> jsval" where
  "update_with uid ps = JObj ((''update_id'', uid) # ps)"

text \<open>A pre-checkout query with the given \<^verbatim>\<open>invoice_payload\<close>.\<close>

definition pre_checkout_query :: "jsval \<Rightarrow> jsval" where
  "pre_checkout_query p = JObj [(''id'', JStr ''q1''), (''invoice_payload'', p)]"




lemmas handler_defs =
  handler_def handle_update_def pre_checkout_def forward_def forward_failed_def
  parse_body_def isWarm_def approval_call_def
  res_status_def res_setHeader_def res_send_def res_json_def res_writeHead_def res_end_def
  console_log_def console_warn_def console_error_def called_def throw_def init_def
  responds_def Let_def

lemmas example_defs =
  platform_def post_def update_with_def pre_checkout_query_def no_parse_def net_down_def
  net_answers_def

section \<open>Auxiliary facts\<close>

lemma toUpperCase_GET: "toUpperCase ''GET'' = ''GET''"
  by code_simp

lemma toUpperCase_POST: "toUpperCase ''POST'' = ''POST''"
  by code_simp

lemma trim_empty: "trim [] = []"
  by code_simp

lemma trim_premium_123: "trim ''premium_123'' = ''premium_123''"
  by code_simp

lemma trim_other: "trim ''other'' = ''other''"
  by code_simp

text \<open>The test of line 35 lets through exactly the objects.\<close>

lemma is_object_iff: "is_object v \<longleftrightarrow> truthy v \<and> typeof v = ''object''"
  by (cases v) auto

lemma get_defined_object: "get v name \<noteq> JUndefined \<Longrightarrow> is_object v"
  by (cases v) auto

lemma parse_body_fetch: "parse_body (env\<lparr>fetch := net\<rparr>) b = parse_body env b"
  by (cases b) (simp_all add: parse_body_def)

text \<open>A POST request whose body reads as an object reaches the dispatch on the update.\<close>

lemma handler_post:
  assumes "req_method req = Some ''POST''"
    and "parse_body env (req_body req) = Some update"
    and "is_object update"
  shows "handler env req =
           handle_update env req update (console_log ''[WEBHOOK_JS] v2 DEPLOYED_FEB12'' init)"
  using assms by (simp add: handler_def toUpperCase_POST is_object_iff Let_def)

text \<open>
  \<^verbatim>\<open>(v || '').trim()\<close> yields a string when \<open>v\<close> is a string or falsy, and throws when \<open>v\<close> is
  truthy and not a string.
\<close>

lemma js_trim_string: "js_trim (js_or (JStr p) (JStr [])) = Inr (trim p)"
  by (cases p) (simp_all add: js_or_def)

lemma js_trim_falsy: "\<not> truthy v \<Longrightarrow> js_trim (js_or v (JStr [])) = Inr []"
  by (simp add: js_or_def trim_empty)

lemma js_trim_payload:
  "is_string v \<or> \<not> truthy v \<Longrightarrow> \<exists>payload. js_trim (js_or v (JStr [])) = Inr payload"
  by (cases v) (auto simp: js_or_def)

lemma js_trim_throws:
  "truthy v \<Longrightarrow> \<not> is_string v \<Longrightarrow> js_trim (js_or v (JStr [])) = Inl TypeError"
  by (cases v) (auto simp: js_or_def)


section \<open>The webhook handler: method and body\<close>

text \<open>
  C8. For every request whose method is GET, the handler responds 200 \<^verbatim>\<open>{ok:true}\<close>,
  whatever the body of the request is. No outbound call is made on the way.
\<close>

theorem get_always_ok:
  assumes "req_method req = Some ''GET''"
  shows "responds (handler env req) 200 (Json ok_true) \<and> calls (handler env req) = []"
  using assms by (simp add: handler_defs toUpperCase_GET)

theorem get_always_ok_witness:
  "responds (handler (platform net_down) ((post (JStr ''{''))\<lparr>req_method := Some ''GET''\<rparr>))
     200 (Json ok_true)
   \<and> calls (handler (platform net_down) ((post (JStr ''{''))\<lparr>req_method := Some ''GET''\<rparr>)) = []"
  using get_always_ok [of "(post (JStr ''{''))\<lparr>req_method := Some ''GET''\<rparr>" "platform net_down"]
  by (simp add: post_def)

text \<open>
  C5. For every POST request whose body cannot be read as structured data (a string body
  that is not valid JSON, or a body that is not an object), the handler responds 400
  \<^verbatim>\<open>{ok:false}\<close> and makes no outbound call.
\<close>

theorem unparseable_body_rejected:
  assumes "req_method req = Some ''POST''"
    and "unparseable env (req_body req)"
  shows "responds (handler env req) 400 (Json ok_false) \<and> calls (handler env req) = []"
  using assms
  by (auto simp: handler_def unparseable_def parse_body_def toUpperCase_POST is_object_iff
      responds_def res_json_def res_send_def res_status_def console_log_def init_def Let_def
      split: jsval.splits option.splits)

theorem unparseable_body_rejected_witness:
  "responds (handler (platform net_down) (post (JStr ''{''))) 400 (Json ok_false)
   \<and> calls (handler (platform net_down) (post (JStr ''{''))) = []
   \<and> responds (handler (platform net_down) (post (JNum (Finite 5)))) 400 (Json ok_false)
   \<and> calls (handler (platform net_down) (post (JNum (Finite 5)))) = []"
  using unparseable_body_rejected [of "post (JStr ''{'')" "platform net_down"]
    unparseable_body_rejected [of "post (JNum (Finite 5))" "platform net_down"]
  by (simp add: post_def platform_def no_parse_def unparseable_def)

section \<open>The webhook handler: the warm-up request\<close>

text \<open>
  C2. For every POST request whose body reads as an object with \<^verbatim>\<open>update_id\<close> equal to the
  number 0 or the string \<^verbatim>\<open>"0"\<close>, the handler responds 200 \<^verbatim>\<open>{ok:true}\<close> and makes no
  outbound call, whether or not the update also has a \<^verbatim>\<open>pre_checkout_query\<close>.
\<close>

theorem warmup_answered_without_calls:
  assumes "req_method req = Some ''POST''"
    and "parse_body env (req_body req) = Some update"
    and "get update ''update_id'' = JNum (Finite 0) \<or> get update ''update_id'' = JStr ''0''"
  shows "responds (handler env req) 200 (Json ok_true) \<and> calls (handler env req) = []"
proof -
  from assms(3) have "get update ''update_id'' \<noteq> JUndefined"
    by auto
  then have "is_object update"
    by (rule get_defined_object)
  with assms(1,2) have "handler env req =
      handle_update env req update (console_log ''[WEBHOOK_JS] v2 DEPLOYED_FEB12'' init)"
    by (rule handler_post)
  with assms(3) show ?thesis
    by (auto simp: handle_update_def isWarm_def responds_def res_send_def res_status_def
        res_setHeader_def console_log_def init_def Let_def)
qed

theorem warmup_answered_without_calls_witness:
  "responds (handler (platform (net_answers 200 ''{}''))
      (post (update_with (JNum (Finite 0))
         [(''pre_checkout_query'', pre_checkout_query (JStr ''premium_123''))])))
     200 (Json ok_true)
   \<and> calls (handler (platform (net_answers 200 ''{}''))
      (post (update_with (JNum (Finite 0))
         [(''pre_checkout_query'', pre_checkout_query (JStr ''premium_123''))]))) = []"
  using warmup_answered_without_calls
    [of "post (update_with (JNum (Finite 0))
           [(''pre_checkout_query'', pre_checkout_query (JStr ''premium_123''))])"
        "platform (net_answers 200 ''{}'')"
        "update_with (JNum (Finite 0))
           [(''pre_checkout_query'', pre_checkout_query (JStr ''premium_123''))]"]
  by (simp add: post_def update_with_def parse_body_def)

section \<open>The webhook handler: forwarding\<close>



section \<open>The webhook handler: the pre-checkout query\<close>

text \<open>
  When the \<^verbatim>\<open>invoice_payload\<close> of the query is a string \<open>p\<close>, the handler makes the
  payment-approval call with \<^verbatim>\<open>ok\<close> set to true exactly when the trimmed \<open>p\<close> starts with
  \<^verbatim>\<open>premium_\<close>, with an \<^verbatim>\<open>error_message\<close> beside \<^verbatim>\<open>ok:false\<close>, and responds 200 \<^verbatim>\<open>{ok:true}\<close>.
\<close>

lemma string_payload_prefix_decides_ok:
  assumes "req_method req = Some ''POST''"
    and "parse_body env (req_body req) = Some update"
    and "get update ''update_id'' \<noteq> JNum (Finite 0)"
    and "get update ''update_id'' \<noteq> JStr ''0''"
    and "get update ''pre_checkout_query'' = pq"
    and "truthy pq"
    and "get pq ''invoice_payload'' = JStr p"
  shows "calls (handler env req) = [approval_call env pq (startsWith (trim p) ''premium_'')]
       \<and> fr_body (approval_call env pq (startsWith (trim p) ''premium_'')) =
           Json (JObj ([(''pre_checkout_query_id'', get pq ''id''),
                        (''ok'', JBool (startsWith (trim p) ''premium_''))]
                       @ (if startsWith (trim p) ''premium_'' then []
                          else [(''error_message'', JStr error_message)])))
       \<and> responds (handler env req) 200 (Json ok_true)"
proof -
  let ?ok = "startsWith (trim p) ''premium_''"
  from assms(5,6) have "get update ''pre_checkout_query'' \<noteq> JUndefined"
    by auto
  then have "is_object update"
    by (rule get_defined_object)
  with assms(1,2) have h: "handler env req =
      handle_update env req update (console_log ''[WEBHOOK_JS] v2 DEPLOYED_FEB12'' init)"
    by (rule handler_post)
  have b: "fr_body (approval_call env pq ?ok) =
           Json (JObj ([(''pre_checkout_query_id'', get pq ''id''), (''ok'', JBool ?ok)]
                       @ (if ?ok then [] else [(''error_message'', JStr error_message)])))"
    by (simp add: approval_call_def Let_def)
  show ?thesis
    unfolding h using assms(3-7) js_trim_string [of p] b
    by (simp add: handle_update_def isWarm_def pre_checkout_def responds_def
        res_send_def res_json_def res_status_def console_log_def console_warn_def
        console_error_def called_def init_def Let_def
        split: fetch_outcome.split option.split)
qed

text \<open>The payloads \<^verbatim>\<open>premium_123\<close> and \<^verbatim>\<open>other\<close>.\<close>

lemma string_payload_examples:
  "map fr_body (calls (handler (platform (net_answers 200 ''{}''))
      (post (update_with (JNum (Finite 7))
         [(''pre_checkout_query'', pre_checkout_query (JStr ''premium_123''))]))))
     = [Json (JObj [(''pre_checkout_query_id'', JStr ''q1''), (''ok'', JBool True)])]
   \<and> responds (handler (platform (net_answers 200 ''{}''))
      (post (update_with (JNum (Finite 7))
         [(''pre_checkout_query'', pre_checkout_query (JStr ''premium_123''))])))
        200 (Json ok_true)
   \<and> map fr_body (calls (handler (platform (net_answers 200 ''{}''))
      (post (update_with (JNum (Finite 7))
         [(''pre_checkout_query'', pre_checkout_query (JStr ''other''))]))))
     = [Json (JObj [(''pre_checkout_query_id'', JStr ''q1''), (''ok'', JBool False),
                    (''error_message'', JStr error_message)])]
   \<and> responds (handler (platform (net_answers 200 ''{}''))
      (post (update_with (JNum (Finite 7))
         [(''pre_checkout_query'', pre_checkout_query (JStr ''other''))])))
        200 (Json ok_true)"
  using string_payload_prefix_decides_ok
    [of "post (update_with (JNum (Finite 7))
           [(''pre_checkout_query'', pre_checkout_query (JStr ''premium_123''))])"
        "platform (net_answers 200 ''{}'')"
        "update_with (JNum (Finite 7))
           [(''pre_checkout_query'', pre_checkout_query (JStr ''premium_123''))]"
        "pre_checkout_query (JStr ''premium_123'')" "''premium_123''"]
    string_payload_prefix_decides_ok
    [of "post (update_with (JNum (Finite 7))
           [(''pre_checkout_query'', pre_checkout_query (JStr ''other''))])"
        "platform (net_answers 200 ''{}'')"
        "update_with (JNum (Finite 7))
           [(''pre_checkout_query'', pre_checkout_query (JStr ''other''))]"
        "pre_checkout_query (JStr ''other'')" "''other''"]
  by (simp add: post_def update_with_def pre_checkout_query_def parse_body_def
      trim_premium_123 trim_other startsWith_def)

text \<open>
  When the \<^verbatim>\<open>invoice_payload\<close> is a string or falsy, the approval call is made, and the
  handler responds 200 \<^verbatim>\<open>{ok:true}\<close> whatever the network \<open>net\<close> makes of that call:
  success, a status that is not ok, or an exception.
\<close>

lemma approval_outcome_not_surfaced:
  assumes "req_method req = Some ''POST''"
    and "parse_body env (req_body req) = Some update"
    and "get update ''update_id'' \<noteq> JNum (Finite 0)"
    and "get update ''update_id'' \<noteq> JStr ''0''"
    and "get update ''pre_checkout_query'' = pq"
    and "truthy pq"
    and "is_string (get pq ''invoice_payload'') \<or> \<not> truthy (get pq ''invoice_payload'')"
  shows "responds (handler (env\<lparr>fetch := net\<rparr>) req) 200 (Json ok_true)
       \<and> length (calls (handler (env\<lparr>fetch := net\<rparr>) req)) = 1
       \<and> thrown (handler (env\<lparr>fetch := net\<rparr>) req) = None"
proof -
  let ?env = "env\<lparr>fetch := net\<rparr>"
  from assms(5,6) have "get update ''pre_checkout_query'' \<noteq> JUndefined"
    by auto
  then have "is_object update"
    by (rule get_defined_object)
  moreover have "parse_body ?env (req_body req) = Some update"
    using assms(2) by (simp add: parse_body_fetch)
  ultimately have h: "handler ?env req =
      handle_update ?env req update (console_log ''[WEBHOOK_JS] v2 DEPLOYED_FEB12'' init)"
    using assms(1) by (simp add: handler_post)
  from assms(7) obtain payload
    where t: "js_trim (js_or (get pq ''invoice_payload'') (JStr [])) = Inr payload"
    using js_trim_payload by blast
  show ?thesis
    unfolding h using assms(3-6) t
    by (simp add: handle_update_def isWarm_def pre_checkout_def responds_def
        res_send_def res_json_def res_status_def console_log_def console_warn_def
        console_error_def called_def init_def Let_def
        split: fetch_outcome.split option.split)
qed

text \<open>A network that is down, one that answers 403 and one that answers 200.\<close>

lemma approval_outcome_examples:
  "responds (handler ((platform net_down)\<lparr>fetch := net_down\<rparr>)
      (post (update_with (JNum (Finite 7))
         [(''pre_checkout_query'', pre_checkout_query (JStr ''premium_123''))])))
        200 (Json ok_true)
   \<and> responds (handler ((platform net_down)\<lparr>fetch := net_answers 403 ''Forbidden''\<rparr>)
      (post (update_with (JNum (Finite 7))
         [(''pre_checkout_query'', pre_checkout_query (JStr ''premium_123''))])))
        200 (Json ok_true)
   \<and> responds (handler ((platform net_down)\<lparr>fetch := net_answers 200 ''{}''\<rparr>)
      (post (update_with (JNum (Finite 7))
         [(''pre_checkout_query'', pre_checkout_query (JStr ''premium_123''))])))
        200 (Json ok_true)"
  using approval_outcome_not_surfaced
    [of "post (update_with (JNum (Finite 7))
           [(''pre_checkout_query'', pre_checkout_query (JStr ''premium_123''))])"
        "platform net_down"
        "update_with (JNum (Finite 7))
           [(''pre_checkout_query'', pre_checkout_query (JStr ''premium_123''))]"
        "pre_checkout_query (JStr ''premium_123'')"]
  by (simp add: post_def update_with_def pre_checkout_query_def parse_body_def)

text \<open>
  When the \<^verbatim>\<open>invoice_payload\<close> is missing or any other falsy value, line 55 takes the empty
  string for it: the query is rejected with \<^verbatim>\<open>ok:false\<close> and the error message, and the
  caller gets 200.
\<close>

lemma falsy_payload_rejected:
  assumes "req_method req = Some ''POST''"
    and "parse_body env (req_body req) = Some update"
    and "get update ''update_id'' \<noteq> JNum (Finite 0)"
    and "get update ''update_id'' \<noteq> JStr ''0''"
    and "get update ''pre_checkout_query'' = pq"
    and "truthy pq"
    and "\<not> truthy (get pq ''invoice_payload'')"
  shows "calls (handler env req) = [approval_call env pq False]
       \<and> fr_body (approval_call env pq False) =
           Json (JObj [(''pre_checkout_query_id'', get pq ''id''), (''ok'', JBool False),
                       (''error_message'', JStr error_message)])
       \<and> responds (handler env req) 200 (Json ok_true)"
proof -
  from assms(5,6) have "get update ''pre_checkout_query'' \<noteq> JUndefined"
    by auto
  then have "is_object update"
    by (rule get_defined_object)
  with assms(1,2) have h: "handler env req =
      handle_update env req update (console_log ''[WEBHOOK_JS] v2 DEPLOYED_FEB12'' init)"
    by (rule handler_post)
  have s: "\<not> startsWith [] ''premium_''"
    by (simp add: startsWith_def)
  show ?thesis
    unfolding h using assms(3-6) js_trim_falsy [OF assms(7)] s
    by (simp add: handle_update_def isWarm_def pre_checkout_def approval_call_def responds_def
        res_send_def res_json_def res_status_def console_log_def console_warn_def
        console_error_def called_def init_def Let_def
        split: fetch_outcome.split option.split)
qed

text \<open>
  When the \<^verbatim>\<open>invoice_payload\<close> is truthy and not a string, \<^verbatim>\<open>.trim\<close> is not a function:
  line 55 throws, before the approval call and before any response.
\<close>

lemma truthy_non_string_payload_throws:
  assumes "req_method req = Some ''POST''"
    and "parse_body env (req_body req) = Some update"
    and "get update ''update_id'' \<noteq> JNum (Finite 0)"
    and "get update ''update_id'' \<noteq> JStr ''0''"
    and "get update ''pre_checkout_query'' = pq"
    and "truthy pq"
    and "truthy (get pq ''invoice_payload'')"
    and "\<not> is_string (get pq ''invoice_payload'')"
  shows "thrown (handler env req) = Some TypeError
       \<and> calls (handler env req) = [] \<and> responses (handler env req) = []"
proof -
  from assms(5,6) have "get update ''pre_checkout_query'' \<noteq> JUndefined"
    by auto
  then have "is_object update"
    by (rule get_defined_object)
  with assms(1,2) have h: "handler env req =
      handle_update env req update (console_log ''[WEBHOOK_JS] v2 DEPLOYED_FEB12'' init)"
    by (rule handler_post)
  show ?thesis
    unfolding h using assms(3-6) js_trim_throws [OF assms(7,8)]
    by (simp add: handle_update_def isWarm_def pre_checkout_def throw_def console_log_def
        init_def Let_def)
qed

text \<open>
  C1. For every POST request whose body reads as an update with a truthy
  \<^verbatim>\<open>pre_checkout_query\<close> and an \<^verbatim>\<open>update_id\<close> that is not zero, the handler is to make the
  payment-approval call, with \<^verbatim>\<open>ok\<close> true exactly when the trimmed \<^verbatim>\<open>invoice_payload\<close> starts
  with \<^verbatim>\<open>premium_\<close>, and to respond 200 \<^verbatim>\<open>{ok:true}\<close>. With \<^verbatim>\<open>update_id\<close> 5 and the
  \<^verbatim>\<open>invoice_payload\<close> 123, a number, line 55 throws: the handler makes no approval call and
  does not respond 200.
\<close>

theorem numeric_payload_no_approval_call:
  "calls (handler (platform (net_answers 200 ''{}''))
     (post (update_with (JNum (Finite 5))
        [(''pre_checkout_query'', pre_checkout_query (JNum (Finite 123)))]))) = []
   \<and> \<not> responds (handler (platform (net_answers 200 ''{}''))
     (post (update_with (JNum (Finite 5))
        [(''pre_checkout_query'', pre_checkout_query (JNum (Finite 123)))])))
        200 (Json ok_true)"
  by (simp add: handler_defs example_defs toUpperCase_POST js_or_def)

text \<open>
  C4. For every POST request that reaches the pre-checkout branch, the handler is to
  respond 200 \<^verbatim>\<open>{ok:true}\<close> whether the payment-approval call succeeds, returns a status that
  is not ok, or throws. With the \<^verbatim>\<open>invoice_payload\<close> 42, a number, the branch is reached and
  line 55 throws before the call: on a network that answers 200, on one that answers 403
  and on one that is down alike, the handler does not respond 200.
\<close>

theorem numeric_payload_no_200_on_any_network:
  "\<not> responds (handler (platform (net_answers 200 ''{}''))
     (post (update_with (JNum (Finite 9))
        [(''pre_checkout_query'', pre_checkout_query (JNum (Finite 42)))])))
        200 (Json ok_true)
   \<and> \<not> responds (handler (platform (net_answers 403 ''Forbidden''))
     (post (update_with (JNum (Finite 9))
        [(''pre_checkout_query'', pre_checkout_query (JNum (Finite 42)))])))
        200 (Json ok_true)
   \<and> \<not> responds (handler (platform net_down)
     (post (update_with (JNum (Finite 9))
        [(''pre_checkout_query'', pre_checkout_query (JNum (Finite 42)))])))
        200 (Json ok_true)"
  by (simp add: handler_defs example_defs toUpperCase_POST js_or_def)

text \<open>
  C9. For every POST request with a truthy \<^verbatim>\<open>pre_checkout_query\<close> whose \<^verbatim>\<open>invoice_payload\<close> is
  missing or not a string, the handler is to make the approval call with \<^verbatim>\<open>ok:false\<close> and
  an error message and to respond 200. With the \<^verbatim>\<open>invoice_payload\<close> \<^verbatim>\<open>true\<close>, which is not a
  string, the handler makes no call and sends no response.
\<close>

theorem boolean_payload_neither_call_nor_response:
  "calls (handler (platform (net_answers 200 ''{}''))
     (post (update_with (JNum (Finite 7))
        [(''pre_checkout_query'', pre_checkout_query (JBool True))]))) = []
   \<and> responses (handler (platform (net_answers 200 ''{}''))
     (post (update_with (JNum (Finite 7))
        [(''pre_checkout_query'', pre_checkout_query (JBool True))]))) = []"
  by (simp add: handler_defs example_defs toUpperCase_POST js_or_def)

section \<open>The webhook handler: responses\<close>

text \<open>
  On every path the handler sends one response, unless it ends with an exception, and
  then it sends none.
\<close>

lemma one_response_unless_thrown:
  "length (responses (handler env req)) = (if thrown (handler env req) = None then 1 else 0)"
  by (simp add: handler_def handle_update_def pre_checkout_def forward_def forward_failed_def
      res_status_def res_setHeader_def res_send_def res_json_def res_writeHead_def res_end_def
      console_log_def console_warn_def console_error_def called_def throw_def init_def Let_def
      split: option.split fetch_outcome.split sum.split)

text \<open>
  C6. For every inbound request, on every path of the handler, exactly one response is to
  be sent. On the pre-checkout path with the \<^verbatim>\<open>invoice_payload\<close> 123, a number, the handler
  throws a \<^verbatim>\<open>TypeError\<close> at line 55 and sends no response.
\<close>

theorem numeric_payload_no_response:
  "responses (handler (platform net_down)
     (post (update_with (JNum (Finite 1))
        [(''pre_checkout_query'', pre_checkout_query (JNum (Finite 123)))]))) = []
   \<and> thrown (handler (platform net_down)
     (post (update_with (JNum (Finite 1))
        [(''pre_checkout_query'', pre_checkout_query (JNum (Finite 123)))]))) = Some TypeError"
  by (simp add: handler_defs example_defs toUpperCase_POST js_or_def)

text \<open>
  C7, as stated: the status code of every response is one of 200, 400, 405 and 502. A
  forwarded update whose downstream call answers 500 is answered with 500.
\<close>

theorem downstream_500_mirrored:
  "map status (responses (handler (platform (net_answers 500 ''boom''))
     (post (update_with (JNum (Finite 1)) [])))) = [500]
   \<and> (500 :: nat) \<notin> {200, 400, 405, 502}"
  by (simp add: handler_defs example_defs toUpperCase_POST)

text \<open>
  C7, amended: the status code of every response of the handler is one of 200, 400, 405
  and 502, or it is the status code of the downstream response to the forwarded update.
\<close>

theorem status_codes_of_handler:
  assumes "r \<in> set (responses (handler env req))"
  shows "status r \<in> {200, 400, 405, 502}
       \<or> (\<exists>update p. parse_body env (req_body req) = Some update
             \<and> fetch env (forward_call req update) = Resolved p
             \<and> status r = resp_status p)"
  using assms
  by (auto simp: handler_def handle_update_def pre_checkout_def forward_def forward_failed_def
      res_status_def res_setHeader_def res_send_def res_json_def res_writeHead_def res_end_def
      console_log_def console_warn_def console_error_def called_def throw_def init_def Let_def
      split: option.splits fetch_outcome.splits sum.splits if_splits)

theorem status_codes_of_handler_witness:
  "\<lparr>status = 500, headers = [(''Content-Type'', ''application/json'')],
     body = Text ''boom''\<rparr>
     \<in> set (responses (handler (platform (net_answers 500 ''boom''))
                (post (update_with (JNum (Finite 1)) []))))
   \<and> ((500 :: nat) \<in> {200, 400, 405, 502}
      \<or> (\<exists>update p.
            parse_body (platform (net_answers 500 ''boom''))
              (req_body (post (update_with (JNum (Finite 1)) []))) = Some update
            \<and> fetch (platform (net_answers 500 ''boom''))
                (forward_call (post (update_with (JNum (Finite 1)) [])) update) = Resolved p
            \<and> 500 = resp_status p))"
proof -
  have r: "\<lparr>status = 500, headers = [(''Content-Type'', ''application/json'')],
     body = Text ''boom''\<rparr>
     \<in> set (responses (handler (platform (net_answers 500 ''boom''))
                (post (update_with (JNum (Finite 1)) []))))"
    by (simp add: handler_defs example_defs toUpperCase_POST)
  from status_codes_of_handler [OF r] r show ?thesis
    by simp
qed

section \<open>The edge proxy: forwarding and the CORS header\<close>




end
